theory Spec2Isabelle
  imports Complex_Main
begin

section \<open>Numbers of the host language\<close>

text \<open>
  The engine of \<^verbatim>\<open>src/app/trade-system.tsx\<close> computes with the numbers of
  JavaScript. A number is modelled as an exact rational, or one of the three special
  values that the arithmetic of the language produces instead of raising an error:
  \<open>Infinity\<close>, \<open>-Infinity\<close> and \<open>NaN\<close>. Division by zero is therefore a value
  of the model, as it is a value of the program.

  Idealisation: finite values are exact rationals. Binary rounding, overflow of large
  finite values to \<open>Infinity\<close> and the sign of zero are outside the model.
\<close>

datatype jsnum = Fin rat | PInf | NInf | NaN

fun js_neg :: "jsnum \<Rightarrow> jsnum" where
  "js_neg (Fin a) = Fin (- a)"
| "js_neg PInf = NInf"
| "js_neg NInf = PInf"
| "js_neg NaN = NaN"

fun js_add :: "jsnum \<Rightarrow> jsnum \<Rightarrow> jsnum" where
  "js_add (Fin a) (Fin b) = Fin (a + b)"
| "js_add NaN y = NaN"
| "js_add x NaN = NaN"
| "js_add PInf NInf = NaN"
| "js_add NInf PInf = NaN"
| "js_add PInf y = PInf"
| "js_add x PInf = PInf"
| "js_add NInf y = NInf"
| "js_add x NInf = NInf"

definition js_sub :: "jsnum \<Rightarrow> jsnum \<Rightarrow> jsnum" where
  "js_sub x y = js_add x (js_neg y)"

fun js_mul :: "jsnum \<Rightarrow> jsnum \<Rightarrow> jsnum" where
  "js_mul (Fin a) (Fin b) = Fin (a * b)"
| "js_mul NaN y = NaN"
| "js_mul x NaN = NaN"
| "js_mul PInf (Fin b) = (if b = 0 then NaN else if 0 < b then PInf else NInf)"
| "js_mul NInf (Fin b) = (if b = 0 then NaN else if 0 < b then NInf else PInf)"
| "js_mul (Fin a) PInf = (if a = 0 then NaN else if 0 < a then PInf else NInf)"
| "js_mul (Fin a) NInf = (if a = 0 then NaN else if 0 < a then NInf else PInf)"
| "js_mul PInf PInf = PInf"
| "js_mul PInf NInf = NInf"
| "js_mul NInf PInf = NInf"
| "js_mul NInf NInf = PInf"

fun js_div :: "jsnum \<Rightarrow> jsnum \<Rightarrow> jsnum" where
  "js_div (Fin a) (Fin b) =
     (if b = 0 then (if a = 0 then NaN else if 0 < a then PInf else NInf)
      else Fin (a / b))"
| "js_div NaN y = NaN"
| "js_div x NaN = NaN"
| "js_div (Fin a) PInf = Fin 0"
| "js_div (Fin a) NInf = Fin 0"
| "js_div PInf (Fin b) = (if 0 \<le> b then PInf else NInf)"
| "js_div NInf (Fin b) = (if 0 \<le> b then NInf else PInf)"
| "js_div PInf PInf = NaN"
| "js_div PInf NInf = NaN"
| "js_div NInf PInf = NaN"
| "js_div NInf NInf = NaN"




text \<open>
  \<open>x || 0\<close> on a number: \<open>NaN\<close> and zero are the falsy numbers, every other
  number is kept.
\<close>

definition orZero :: "jsnum \<Rightarrow> jsnum" where
  "orZero x = (if x = NaN \<or> x = Fin 0 then Fin 0 else x)"

section \<open>Strings of the host language\<close>

text \<open>
  Strings are ASCII texts. \<open>toUpperCase\<close> maps the letters \<open>a-z\<close> to \<open>A-Z\<close>
  and keeps every other character.
\<close>

definition toUpperChar :: "char \<Rightarrow> char" where
  "toUpperChar c =
     (case map_of (zip ''abcdefghijklmnopqrstuvwxyz'' ''ABCDEFGHIJKLMNOPQRSTUVWXYZ'') c of
        Some u \<Rightarrow> u
      | None \<Rightarrow> c)"

definition toUpperCase :: "string \<Rightarrow> string" where
  "toUpperCase s = map toUpperChar s"

definition isDigit :: "char \<Rightarrow> bool" where
  "isDigit c = (c \<in> set ''0123456789'')"

definition digitVal :: "char \<Rightarrow> nat" where
  "digitVal c = (case map_of (zip ''0123456789'' [0, 1, 2, 3, 4, 5, 6, 7, 8, 9]) c of
                   Some d \<Rightarrow> d
                 | None \<Rightarrow> 0)"

definition digitsVal :: "string \<Rightarrow> nat" where
  "digitsVal ds = foldl (\<lambda>n c. 10 * n + digitVal c) 0 ds"

text \<open>The ASCII white space that \<open>parseFloat\<close> skips: TAB, LF, VT, FF, CR, SP.\<close>

definition isStrWhiteSpace :: "char \<Rightarrow> bool" where
  "isStrWhiteSpace c = (of_char c \<in> {9, 10, 11, 12, 13, 32 :: nat})"

text \<open>
  The exponent part of a decimal literal: \<open>e\<close> or \<open>E\<close>, an optional sign and at
  least one digit. Anything else is not an exponent and is ignored, as every other
  trailing text is.
\<close>

definition parseExponent :: "string \<Rightarrow> int" where
  "parseExponent s =
     (case s of
        [] \<Rightarrow> 0
      | c # r \<Rightarrow>
          if c = CHR ''e'' \<or> c = CHR ''E'' then
            (case r of
               [] \<Rightarrow> 0
             | d # r' \<Rightarrow>
                 if d = CHR ''-'' then
                   (if takeWhile isDigit r' = [] then 0
                    else - int (digitsVal (takeWhile isDigit r')))
                 else if d = CHR ''+'' then int (digitsVal (takeWhile isDigit r'))
                 else int (digitsVal (takeWhile isDigit r)))
          else 0)"

definition scale10 :: "rat \<Rightarrow> int \<Rightarrow> rat" where
  "scale10 v e = (if 0 \<le> e then v * 10 ^ nat e else v / 10 ^ nat (- e))"

text \<open>
  The unsigned part of a decimal literal: \<open>Infinity\<close>, or digits with an optional
  fraction and an optional exponent, at least one digit before or after the point.
  The longest prefix that is a literal is read; when there is none the result is
  \<open>NaN\<close>.
\<close>

definition parseUnsigned :: "string \<Rightarrow> jsnum" where
  "parseUnsigned u =
     (if take 8 u = ''Infinity'' then PInf
      else
        let ip = takeWhile isDigit u;
            r1 = dropWhile isDigit u;
            hasPoint = (r1 \<noteq> [] \<and> hd r1 = CHR ''.'');
            fp = (if hasPoint then takeWhile isDigit (tl r1) else []);
            r2 = (if hasPoint then dropWhile isDigit (tl r1) else r1)
        in if ip = [] \<and> fp = [] then NaN
           else Fin (scale10 (of_nat (digitsVal (ip @ fp)) / 10 ^ length fp)
                       (parseExponent r2)))"

definition parseFloat :: "string \<Rightarrow> jsnum" where
  "parseFloat s =
     (let t = dropWhile isStrWhiteSpace s
      in case t of
           [] \<Rightarrow> NaN
         | c # r \<Rightarrow>
             if c = CHR ''-'' then js_neg (parseUnsigned r)
             else if c = CHR ''+'' then parseUnsigned r
             else parseUnsigned t)"

text \<open>
  \<open>parseFloat\<close> of a field that may be absent: the absent value \<open>undefined\<close> is
  converted to the text \<open>undefined\<close>, which is no literal.
\<close>

definition parseFloatOpt :: "string option \<Rightarrow> jsnum" where
  "parseFloatOpt v = (case v of None \<Rightarrow> NaN | Some s \<Rightarrow> parseFloat s)"

section \<open>Data model\<close>

text \<open>
  A trade row as \<open>defaultRow\<close> builds it and as the second listing of the file
  declares it. The first listing declares \<open>Vol\<close> and \<open>Qty\<close> optional; they are
  optional here. \<open>Script\<close> is a string in every row the component builds. The
  fields \<open>Action\<close>, \<open>Type\<close> and \<open>Exchange\<close> are strings that the engine
  compares with \<open>"BUY"\<close>, \<open>"FORWARD"\<close> and \<open>"MCX"\<close>. The field \<open>id\<close> of a
  row is \<open>trade_id\<close> here.

  An entry of the lot-based schedule has the fields \<open>script\<close>, \<open>lotQty\<close> and
  \<open>rate\<close>; its \<open>script\<close> is \<open>mcx_script\<close> here, \<open>script\<close> being the field
  of a report group.
\<close>

record Trade =
  trade_id :: string
  Date :: string
  Action :: string
  Qty :: "string option"
  Price :: string
  Vol :: "string option"
  Script :: string
  Type :: string
  Exchange :: string

record McxScript =
  mcx_script :: string
  lotQty :: jsnum
  rate :: jsnum

type_synonym McxMap = "string \<rightharpoonup> McxScript"

section \<open>The brokerage calculator\<close>

text \<open>
  The first listing (lines 39 to 53):
  \<^verbatim>\<open>
  if (trade.Type === "FORWARD") return 0;
  const vol = parseFloat(trade.Vol) || 0;
  const qty = parseFloat(trade.Qty) || 0;
  const scriptKey = trade.Script.toUpperCase();
  const mcxSettings = mcxMap[scriptKey];
  if (mcxSettings || trade.Exchange === "MCX") {
    const { lotQty = 1, rate = 40 } = mcxSettings || {};
    return (qty / lotQty) * rate;
  }
  return vol * (nseRate / 10_000_000);
  \<close>
  An entry of the schedule is an object, hence truthy; the test \<open>mcxSettings\<close> is
  the test that the entry exists. The key is upper case, so it is no name of the
  prototype of the object.
\<close>

definition volOf :: "Trade \<Rightarrow> jsnum" where
  "volOf t = orZero (parseFloatOpt (Vol t))"

definition qtyOf :: "Trade \<Rightarrow> jsnum" where
  "qtyOf t = orZero (parseFloatOpt (Qty t))"

definition scriptKey :: "Trade \<Rightarrow> string" where
  "scriptKey t = toUpperCase (Script t)"

text \<open>
  \<open>const { lotQty = 1, rate = 40 } = mcxSettings || {}\<close>: the fields of the entry,
  the defaults when there is no entry.
\<close>

definition lotParams :: "McxScript option \<Rightarrow> jsnum \<times> jsnum" where
  "lotParams mcxSettings =
     (case mcxSettings of
        None \<Rightarrow> (Fin 1, Fin 40)
      | Some s \<Rightarrow> (lotQty s, rate s))"

definition calcBrokerage :: "Trade \<Rightarrow> jsnum \<Rightarrow> McxMap \<Rightarrow> jsnum" where
  "calcBrokerage trade nseRate mcxMap =
     (if Type trade = ''FORWARD'' then Fin 0
      else
        let vol = volOf trade;
            qty = qtyOf trade;
            mcxSettings = mcxMap (scriptKey trade)
        in if mcxSettings \<noteq> None \<or> Exchange trade = ''MCX'' then
             (case lotParams mcxSettings of
                (lot, perLot) \<Rightarrow> js_mul (js_div qty lot) perLot)
           else js_mul vol (js_div nseRate (Fin 10000000)))"

text \<open>
  The second listing (lines 608 to 626):
  \<^verbatim>\<open>
  if (trade.Type === "FORWARD") return 0;
  const vol = parseFloat(trade.Vol || "0") || 0;
  const qty = parseFloat(trade.Qty || "0") || 0;
  const scriptKey = trade.Script.toUpperCase();
  const mcxSettings = mcxMap[scriptKey];
  if (trade.Exchange === "MCX" && mcxSettings) {
    return (qty / mcxSettings.lotQty) * mcxSettings.rate;
  }
  return vol * (nseRate / 10_000_000);
  \<close>
  \<open>v || "0"\<close> replaces an absent and an empty text by \<open>"0"\<close>.
\<close>

definition orText0 :: "string option \<Rightarrow> string" where
  "orText0 v = (case v of None \<Rightarrow> ''0'' | Some s \<Rightarrow> if s = [] then ''0'' else s)"

definition volOf_v2 :: "Trade \<Rightarrow> jsnum" where
  "volOf_v2 t = orZero (parseFloat (orText0 (Vol t)))"

definition qtyOf_v2 :: "Trade \<Rightarrow> jsnum" where
  "qtyOf_v2 t = orZero (parseFloat (orText0 (Qty t)))"

definition calcBrokerage_v2 :: "Trade \<Rightarrow> jsnum \<Rightarrow> McxMap \<Rightarrow> jsnum" where
  "calcBrokerage_v2 trade nseRate mcxMap =
     (if Type trade = ''FORWARD'' then Fin 0
      else
        let vol = volOf_v2 trade;
            qty = qtyOf_v2 trade;
            mcxSettings = mcxMap (scriptKey trade)
        in case mcxSettings of
             Some s \<Rightarrow>
               if Exchange trade = ''MCX'' then js_mul (js_div qty (lotQty s)) (rate s)
               else js_mul vol (js_div nseRate (Fin 10000000))
           | None \<Rightarrow> js_mul vol (js_div nseRate (Fin 10000000)))"

section \<open>The configuration held by the component\<close>

definition DEFAULT_NSE_RATE :: jsnum where
  "DEFAULT_NSE_RATE = Fin 3000"

definition DEFAULT_MCX_SCRIPTS :: "McxScript list" where
  "DEFAULT_MCX_SCRIPTS =
     [\<lparr>mcx_script = ''CRUDEOIL'', lotQty = Fin 100, rate = Fin 40\<rparr>,
      \<lparr>mcx_script = ''GOLD'', lotQty = Fin 1, rate = Fin 30\<rparr>,
      \<lparr>mcx_script = ''SILVER'', lotQty = Fin 30, rate = Fin 25\<rparr>,
      \<lparr>mcx_script = ''COPPER'', lotQty = Fin 2500, rate = Fin 20\<rparr>,
      \<lparr>mcx_script = ''NATURALGAS'', lotQty = Fin 1250, rate = Fin 35\<rparr>]"

text \<open>
  The schedule handed to the engine (lines 87 to 91):
  \<^verbatim>\<open>
  const m = {};
  mcxScripts.forEach((s) => { m[s.script.toUpperCase()] = s; });
  \<close>
  A later entry of the list replaces an earlier one stored under the same key.
\<close>

definition mcxMapOf :: "McxScript list \<Rightarrow> McxMap" where
  "mcxMapOf mcxScripts =
     foldl (\<lambda>m s. m(toUpperCase (mcx_script s) \<mapsto> s)) Map.empty mcxScripts"

section \<open>Objects used as dictionaries\<close>

text \<open>
  \<open>buildReport\<close> collects its groups in an object and reads them back with
  \<open>Object.values\<close>. The object is modelled as the list of its own properties in the
  order of their creation. \<open>Object.values\<close> enumerates the properties whose key is an
  array index first, in ascending numeric order, and the other properties after them
  in the order of their creation. An array index is the canonical decimal text of an
  integer from 0 to 4294967294.
\<close>

type_synonym 'a jsobject = "(string \<times> 'a) list"

definition isArrayIndex :: "string \<Rightarrow> bool" where
  "isArrayIndex k =
     (k \<noteq> [] \<and> list_all isDigit k \<and> (k = ''0'' \<or> hd k \<noteq> CHR ''0'')
      \<and> digitsVal k < 4294967295)"

definition objectValues :: "'a jsobject \<Rightarrow> 'a list" where
  "objectValues ps =
     map snd (sort_key (\<lambda>p. digitsVal (fst p)) (filter (\<lambda>p. isArrayIndex (fst p)) ps)
              @ filter (\<lambda>p. \<not> isArrayIndex (fst p)) ps)"

text \<open>A change of the object stored under a key.\<close>

definition objUpdate :: "string \<Rightarrow> ('a \<Rightarrow> 'a) \<Rightarrow> 'a jsobject \<Rightarrow> 'a jsobject" where
  "objUpdate k f ps = map (\<lambda>p. if fst p = k then (fst p, f (snd p)) else p) ps"

section \<open>The report builder\<close>

record Group =
  script :: string
  exchange :: string
  buys :: "Trade list"
  sells :: "Trade list"

record ReportGroup = Group +
  buyVol :: jsnum
  sellVol :: jsnum
  buyBrk :: jsnum
  sellBrk :: jsnum
  totalBrk :: jsnum
  gross :: jsnum
  net :: jsnum

text \<open>\<open>t.Script.toUpperCase() || "UNKNOWN"\<close>: the empty text is falsy.\<close>

definition groupKey :: "Trade \<Rightarrow> string" where
  "groupKey t = (let k = toUpperCase (Script t) in if k = [] then ''UNKNOWN'' else k)"

text \<open>
  The body of the loop over the trades (lines 58 to 64):
  \<^verbatim>\<open>
  const key = t.Script.toUpperCase() || "UNKNOWN";
  if (!groups[key]) groups[key] = { script: key, exchange: t.Exchange, buys: [], sells: [] };
  if (t.Action === "BUY") groups[key].buys.push(t);
  else groups[key].sells.push(t);
  groups[key].exchange = t.Exchange;
  \<close>
\<close>

definition groupStep :: "Group jsobject \<Rightarrow> Trade \<Rightarrow> Group jsobject" where
  "groupStep groups t =
     (let key = groupKey t;
          groups1 =
            (if map_of groups key = None
             then groups @ [(key, \<lparr>script = key, exchange = Exchange t, buys = [], sells = []\<rparr>)]
             else groups);
          groups2 =
            (if Action t = ''BUY'' then objUpdate key (\<lambda>g. g\<lparr>buys := buys g @ [t]\<rparr>) groups1
             else objUpdate key (\<lambda>g. g\<lparr>sells := sells g @ [t]\<rparr>) groups1)
      in objUpdate key (\<lambda>g. g\<lparr>exchange := Exchange t\<rparr>) groups2)"

definition groupTrades :: "Trade list \<Rightarrow> Group jsobject" where
  "groupTrades trades = foldl groupStep [] trades"

text \<open>
  The function mapped over the groups (lines 67 to 74); \<open>xs.reduce((s, t) => s + f(t), 0)\<close>
  is a left fold from 0.
\<close>

definition summarise :: "jsnum \<Rightarrow> McxMap \<Rightarrow> Group \<Rightarrow> ReportGroup" where
  "summarise nseRate mcxMap g =
     (let bv = foldl (\<lambda>s t. js_add s (volOf t)) (Fin 0) (buys g);
          sv = foldl (\<lambda>s t. js_add s (volOf t)) (Fin 0) (sells g);
          bb = foldl (\<lambda>s t. js_add s (calcBrokerage t nseRate mcxMap)) (Fin 0) (buys g);
          sb = foldl (\<lambda>s t. js_add s (calcBrokerage t nseRate mcxMap)) (Fin 0) (sells g);
          tb = js_add bb sb;
          gr = js_sub sv bv;
          nt = js_sub gr tb
      in \<lparr>script = script g, exchange = exchange g, buys = buys g, sells = sells g,
          buyVol = bv, sellVol = sv, buyBrk = bb, sellBrk = sb,
          totalBrk = tb, gross = gr, net = nt\<rparr>)"

definition buildReport :: "Trade list \<Rightarrow> jsnum \<Rightarrow> McxMap \<Rightarrow> ReportGroup list" where
  "buildReport trades nseRate mcxMap =
     map (summarise nseRate mcxMap) (objectValues (groupTrades trades))"

text \<open>
  The second listing (lines 643 to 671) has the same loop and the same map; it reads the
  volume with \<open>parseFloat(t.Vol || "0") || 0\<close> and calls the second calculator.
\<close>

definition summarise_v2 :: "jsnum \<Rightarrow> McxMap \<Rightarrow> Group \<Rightarrow> ReportGroup" where
  "summarise_v2 nseRate mcxMap g =
     (let bv = foldl (\<lambda>s t. js_add s (volOf_v2 t)) (Fin 0) (buys g);
          sv = foldl (\<lambda>s t. js_add s (volOf_v2 t)) (Fin 0) (sells g);
          bb = foldl (\<lambda>s t. js_add s (calcBrokerage_v2 t nseRate mcxMap)) (Fin 0) (buys g);
          sb = foldl (\<lambda>s t. js_add s (calcBrokerage_v2 t nseRate mcxMap)) (Fin 0) (sells g);
          tb = js_add bb sb;
          gr = js_sub sv bv;
          nt = js_sub gr tb
      in \<lparr>script = script g, exchange = exchange g, buys = buys g, sells = sells g,
          buyVol = bv, sellVol = sv, buyBrk = bb, sellBrk = sb,
          totalBrk = tb, gross = gr, net = nt\<rparr>)"

definition buildReport_v2 :: "Trade list \<Rightarrow> jsnum \<Rightarrow> McxMap \<Rightarrow> ReportGroup list" where
  "buildReport_v2 trades nseRate mcxMap =
     map (summarise_v2 nseRate mcxMap) (objectValues (groupTrades trades))"

text \<open>
  The grand totals of the report view and of the export (lines 121 to 123):
  \<^verbatim>\<open>
  const totalGross = report.reduce((s, r) => s + r.gross, 0);
  const totalBrk = report.reduce((s, r) => s + r.totalBrk, 0);
  const totalNet = report.reduce((s, r) => s + r.net, 0);
  \<close>
\<close>

definition grandTotalGross :: "ReportGroup list \<Rightarrow> jsnum" where
  "grandTotalGross report = foldl (\<lambda>s r. js_add s (gross r)) (Fin 0) report"

definition grandTotalBrk :: "ReportGroup list \<Rightarrow> jsnum" where
  "grandTotalBrk report = foldl (\<lambda>s r. js_add s (totalBrk r)) (Fin 0) report"

definition grandTotalNet :: "ReportGroup list \<Rightarrow> jsnum" where
  "grandTotalNet report = foldl (\<lambda>s r. js_add s (net r)) (Fin 0) report"

section \<open>Notions of the specification\<close>

text \<open>
  The keys of a list in the order in which each is seen first: a key is kept at its
  first occurrence and dropped at every later one.
\<close>

fun firstSeen :: "'a list \<Rightarrow> 'a list" where
  "firstSeen [] = []"
| "firstSeen (x # xs) = x # filter (\<lambda>y. y \<noteq> x) (firstSeen xs)"

text \<open>The position of the first occurrence of a key in a list.\<close>

fun firstIndex :: "'a \<Rightarrow> 'a list \<Rightarrow> nat" where
  "firstIndex x [] = 0"
| "firstIndex x (y # ys) = (if x = y then 0 else Suc (firstIndex x ys))"


section \<open>Invariants of the grouping loop\<close>


text \<open>Every group is stored under its own \<open>script\<close>.\<close>

definition keyed :: "Group jsobject \<Rightarrow> bool" where
  "keyed gs = (\<forall>p\<in>set gs. script (snd p) = fst p)"


section \<open>Concrete inputs\<close>

text \<open>A row with the given action, quantity, volume, symbol, kind and exchange.\<close>

definition mkTrade :: "string \<Rightarrow> string \<Rightarrow> string \<Rightarrow> string \<Rightarrow> string \<Rightarrow> string \<Rightarrow> Trade" where
  "mkTrade a q v s ty ex =
     \<lparr>trade_id = ''r1'', Date = ''2024-01-15'', Action = a, Qty = Some q, Price = ''1'',
      Vol = Some v, Script = s, Type = ty, Exchange = ex\<rparr>"

text \<open>
  The row that \<open>defaultRow\<close> builds; its identifier is random in the source and a
  parameter here.
\<close>

definition defaultRow :: "string \<Rightarrow> Trade" where
  "defaultRow rid =
     \<lparr>trade_id = rid, Date = '''', Action = ''BUY'', Qty = Some '''', Price = '''',
      Vol = Some '''', Script = '''', Type = ''NORMAL'', Exchange = ''NSE''\<rparr>"

text \<open>A row without the two optional fields.\<close>

definition absentRow :: Trade where
  "absentRow = (defaultRow ''r0'')\<lparr>Qty := None, Vol := None\<rparr>"

definition tradesA :: "Trade list" where
  "tradesA =
     [mkTrade ''BUY'' ''2'' ''120000.00'' ''gold'' ''NORMAL'' ''MCX'',
      mkTrade ''BUY'' ''100'' ''500000.00'' ''RELIANCE'' ''NORMAL'' ''NSE'',
      mkTrade ''SELL'' ''2'' ''121000.00'' ''GOLD'' ''NORMAL'' ''MCX'',
      mkTrade ''SELL'' ''100'' ''510000.00'' ''Reliance'' ''NORMAL'' ''NSE'']"

text \<open>A symbol that is a number: the symbols of the entry form are letters and digits.\<close>

definition tradesB :: "Trade list" where
  "tradesB =
     [mkTrade ''BUY'' ''10'' ''35000.00'' ''TCS'' ''NORMAL'' ''NSE'',
      mkTrade ''BUY'' ''100'' ''250000.00'' ''500325'' ''NORMAL'' ''NSE'']"

section \<open>Evaluation of concrete inputs\<close>

lemmas eval_defs = parseFloat_def parseUnsigned_def parseExponent_def scale10_def
  isStrWhiteSpace_def isDigit_def digitsVal_def digitVal_def parseFloatOpt_def orZero_def
  orText0_def toUpperCase_def toUpperChar_def volOf_def qtyOf_def volOf_v2_def qtyOf_v2_def
  scriptKey_def lotParams_def mkTrade_def DEFAULT_NSE_RATE_def DEFAULT_MCX_SCRIPTS_def
  mcxMapOf_def absentRow_def defaultRow_def tradesA_def tradesB_def

lemmas report_defs = buildReport_def buildReport_v2_def groupTrades_def groupStep_def
  groupKey_def objUpdate_def objectValues_def isArrayIndex_def summarise_def summarise_v2_def
  calcBrokerage_def calcBrokerage_v2_def js_sub_def grandTotalGross_def grandTotalBrk_def
  grandTotalNet_def Let_def

section \<open>The two readings of a numeric field agree\<close>

lemma parseFloat_text0: "parseFloat ''0'' = Fin 0"
  by (simp add: eval_defs)

lemma parseFloat_empty: "parseFloat [] = NaN"
  by (simp add: parseFloat_def)

lemma orZero_orText0: "orZero (parseFloat (orText0 v)) = orZero (parseFloatOpt v)"
  by (cases v) (simp_all add: orText0_def parseFloatOpt_def parseFloat_text0 parseFloat_empty orZero_def)

lemma volOf_v2_eq: "volOf_v2 t = volOf t"
  by (simp add: volOf_v2_def volOf_def orZero_orText0)

lemma qtyOf_v2_eq: "qtyOf_v2 t = qtyOf t"
  by (simp add: qtyOf_v2_def qtyOf_def orZero_orText0)

section \<open>The branches of the calculator\<close>

lemma calcBrokerage_cases:
  assumes "Type t \<noteq> ''FORWARD''"
  shows "calcBrokerage t r m =
     (case m (scriptKey t) of
        Some s \<Rightarrow> js_mul (js_div (qtyOf t) (lotQty s)) (rate s)
      | None \<Rightarrow>
          if Exchange t = ''MCX'' then js_mul (js_div (qtyOf t) (Fin 1)) (Fin 40)
          else js_mul (volOf t) (js_div r (Fin 10000000)))"
  using assms by (simp add: calcBrokerage_def lotParams_def split: option.splits)

lemma calcBrokerage_v2_cases:
  assumes "Type t \<noteq> ''FORWARD''"
  shows "calcBrokerage_v2 t r m =
     (case m (scriptKey t) of
        Some s \<Rightarrow>
          if Exchange t = ''MCX'' then js_mul (js_div (qtyOf t) (lotQty s)) (rate s)
          else js_mul (volOf t) (js_div r (Fin 10000000))
      | None \<Rightarrow> js_mul (volOf t) (js_div r (Fin 10000000)))"
  using assms
  by (simp add: calcBrokerage_v2_def volOf_v2_eq qtyOf_v2_eq Let_def split: option.splits)


lemma calcBrokerage_zero_lot_size:
  assumes "Type t \<noteq> ''FORWARD''" and "m (scriptKey t) = Some s" and "lotQty s = Fin 0"
    and "rate s = Fin p" and "0 < p"
  shows "qtyOf t = Fin q \<Longrightarrow> 0 < q \<Longrightarrow> calcBrokerage t r m = PInf"
    and "qtyOf t = Fin 0 \<Longrightarrow> calcBrokerage t r m = NaN"
  using assms by (simp_all add: calcBrokerage_cases)

section \<open>Properties of the calculator\<close>






text \<open>
  Claim C3. For every trade whose kind is FORWARD, both listings of the calculator
  return exactly 0, whatever the exchange, the symbol, the quantity, the volume, the
  flat rate and the schedule are.
\<close>

theorem calcBrokerage_forward_zero:
  assumes "Type t = ''FORWARD''"
  shows "calcBrokerage t r m = Fin 0 \<and> calcBrokerage_v2 t r m = Fin 0"
  using assms by (simp add: calcBrokerage_def calcBrokerage_v2_def)

theorem calcBrokerage_forward_zero_witness:
  "Type (mkTrade ''SELL'' ''25'' ''9000.00'' ''GOLD'' ''FORWARD'' ''MCX'') = ''FORWARD''
   \<and> calcBrokerage (mkTrade ''SELL'' ''25'' ''9000.00'' ''GOLD'' ''FORWARD'' ''MCX'')
        DEFAULT_NSE_RATE (mcxMapOf DEFAULT_MCX_SCRIPTS) = Fin 0
   \<and> calcBrokerage_v2 (mkTrade ''SELL'' ''25'' ''9000.00'' ''GOLD'' ''FORWARD'' ''MCX'')
        DEFAULT_NSE_RATE (mcxMapOf DEFAULT_MCX_SCRIPTS) = Fin 0"
  using calcBrokerage_forward_zero
          [of "mkTrade ''SELL'' ''25'' ''9000.00'' ''GOLD'' ''FORWARD'' ''MCX''"
              DEFAULT_NSE_RATE "mcxMapOf DEFAULT_MCX_SCRIPTS"]
  by (simp add: mkTrade_def)





text \<open>
  Claim C10, as amended. The two listings of the calculator return the same amount for
  every flat rate and every schedule on every trade that is FORWARD, or whose exchange
  is MCX and whose symbol has a schedule entry, or whose exchange is not MCX and whose
  symbol has no entry. On the other trades they differ in the pricing: with the
  exchange MCX and no entry the first prices by lots with the defaults 1 and 40 and the
  second by the flat rate; with an entry and another exchange the first prices by lots
  with the entry and the second by the flat rate.
\<close>

theorem calcBrokerage_versions_agree:
  "(Type t = ''FORWARD'' \<or> (Exchange t = ''MCX'') = (m (scriptKey t) \<noteq> None) \<longrightarrow>
      calcBrokerage t r m = calcBrokerage_v2 t r m)
   \<and> (Type t \<noteq> ''FORWARD'' \<and> Exchange t = ''MCX'' \<and> m (scriptKey t) = None \<longrightarrow>
        calcBrokerage t r m = js_mul (js_div (qtyOf t) (Fin 1)) (Fin 40)
        \<and> calcBrokerage_v2 t r m = js_mul (volOf t) (js_div r (Fin 10000000)))
   \<and> (\<forall>s. Type t \<noteq> ''FORWARD'' \<and> Exchange t \<noteq> ''MCX'' \<and> m (scriptKey t) = Some s \<longrightarrow>
        calcBrokerage t r m = js_mul (js_div (qtyOf t) (lotQty s)) (rate s)
        \<and> calcBrokerage_v2 t r m = js_mul (volOf t) (js_div r (Fin 10000000)))"
proof (cases "Type t = ''FORWARD''")
  case True
  then show ?thesis by (simp add: calcBrokerage_def calcBrokerage_v2_def)
next
  case False
  then show ?thesis
    by (cases "m (scriptKey t)") (simp_all add: calcBrokerage_cases calcBrokerage_v2_cases)
qed

theorem calcBrokerage_versions_agree_witness:
  "Exchange (mkTrade ''BUY'' ''200'' ''1200000.00'' ''crudeoil'' ''NORMAL'' ''MCX'') = ''MCX''
   \<and> mcxMapOf DEFAULT_MCX_SCRIPTS
        (scriptKey (mkTrade ''BUY'' ''200'' ''1200000.00'' ''crudeoil'' ''NORMAL'' ''MCX'')) \<noteq> None
   \<and> calcBrokerage (mkTrade ''BUY'' ''200'' ''1200000.00'' ''crudeoil'' ''NORMAL'' ''MCX'')
        DEFAULT_NSE_RATE (mcxMapOf DEFAULT_MCX_SCRIPTS)
     = calcBrokerage_v2 (mkTrade ''BUY'' ''200'' ''1200000.00'' ''crudeoil'' ''NORMAL'' ''MCX'')
        DEFAULT_NSE_RATE (mcxMapOf DEFAULT_MCX_SCRIPTS)
   \<and> calcBrokerage_v2 (mkTrade ''BUY'' ''200'' ''1200000.00'' ''crudeoil'' ''NORMAL'' ''MCX'')
        DEFAULT_NSE_RATE (mcxMapOf DEFAULT_MCX_SCRIPTS) = Fin 80"
proof -
  let ?t = "mkTrade ''BUY'' ''200'' ''1200000.00'' ''crudeoil'' ''NORMAL'' ''MCX''"
  have ex: "Exchange ?t = ''MCX''" by (simp add: mkTrade_def)
  have en: "mcxMapOf DEFAULT_MCX_SCRIPTS (scriptKey ?t) \<noteq> None" by (simp add: eval_defs)
  have val: "calcBrokerage_v2 ?t DEFAULT_NSE_RATE (mcxMapOf DEFAULT_MCX_SCRIPTS) = Fin 80"
    by (simp add: calcBrokerage_v2_def eval_defs)
  from calcBrokerage_versions_agree [of ?t "mcxMapOf DEFAULT_MCX_SCRIPTS" DEFAULT_NSE_RATE]
    ex en val
  show ?thesis by simp
qed

theorem calcBrokerage_versions_counterexample:
  "calcBrokerage (mkTrade ''BUY'' ''10'' ''1000.00'' ''XYZ'' ''NORMAL'' ''MCX'')
      DEFAULT_NSE_RATE (mcxMapOf DEFAULT_MCX_SCRIPTS) = Fin 400
   \<and> calcBrokerage_v2 (mkTrade ''BUY'' ''10'' ''1000.00'' ''XYZ'' ''NORMAL'' ''MCX'')
      DEFAULT_NSE_RATE (mcxMapOf DEFAULT_MCX_SCRIPTS) = Fin (3 / 10)
   \<and> calcBrokerage (mkTrade ''BUY'' ''10'' ''1000.00'' ''XYZ'' ''NORMAL'' ''MCX'')
      DEFAULT_NSE_RATE (mcxMapOf DEFAULT_MCX_SCRIPTS)
     \<noteq> calcBrokerage_v2 (mkTrade ''BUY'' ''10'' ''1000.00'' ''XYZ'' ''NORMAL'' ''MCX'')
      DEFAULT_NSE_RATE (mcxMapOf DEFAULT_MCX_SCRIPTS)"
  by (simp add: calcBrokerage_def calcBrokerage_v2_def eval_defs)

section \<open>Arithmetic of the sums\<close>

lemma js_add_commute: "js_add x y = js_add y x"
  by (cases x; cases y; simp)













section \<open>The schedule as a dictionary\<close>

lemma mcxMapOf_foldl:
  "foldl (\<lambda>m s. m(toUpperCase (mcx_script s) \<mapsto> s)) m0 xs k =
     (case filter (\<lambda>s. toUpperCase (mcx_script s) = k) xs of
        [] \<Rightarrow> m0 k
      | y # ys \<Rightarrow> Some (last (y # ys)))"
proof (induction xs rule: rev_induct)
  case Nil
  show ?case by simp
next
  case (snoc x xs)
  then show ?case by (auto split: list.splits)
qed

text \<open>
  Claim C7. The lookup of the schedule is insensitive to case: the key of every entry
  is the upper-cased script of the entry and the key of the lookup is the upper-cased
  symbol of the trade, so the lookup finds the last entry of the settings list whose
  script equals the symbol of the trade when both are put in upper case, and nothing
  when there is none. A trade with the symbol \<open>gold\<close> finds the entry \<open>GOLD\<close>.
\<close>

theorem mcxMapOf_case_insensitive:
  "mcxMapOf mcxScripts (scriptKey t) =
     (case filter (\<lambda>s. toUpperCase (mcx_script s) = toUpperCase (Script t)) mcxScripts of
        [] \<Rightarrow> None
      | y # ys \<Rightarrow> Some (last (y # ys)))"
  by (simp add: mcxMapOf_def scriptKey_def mcxMapOf_foldl)

theorem mcxMapOf_case_insensitive_witness:
  "mcxMapOf DEFAULT_MCX_SCRIPTS (scriptKey (mkTrade ''BUY'' ''2'' ''120000.00'' ''gold'' ''NORMAL'' ''MCX''))
     = Some \<lparr>mcx_script = ''GOLD'', lotQty = Fin 1, rate = Fin 30\<rparr>
   \<and> mcxMapOf [\<lparr>mcx_script = ''Gold'', lotQty = Fin 1, rate = Fin 30\<rparr>]
        (scriptKey (mkTrade ''BUY'' ''2'' ''120000.00'' ''gOLD'' ''NORMAL'' ''MCX''))
     = Some \<lparr>mcx_script = ''Gold'', lotQty = Fin 1, rate = Fin 30\<rparr>
   \<and> calcBrokerage (mkTrade ''BUY'' ''2'' ''120000.00'' ''gold'' ''NORMAL'' ''MCX'')
        DEFAULT_NSE_RATE (mcxMapOf DEFAULT_MCX_SCRIPTS) = Fin 60"
  using mcxMapOf_case_insensitive [of DEFAULT_MCX_SCRIPTS "mkTrade ''BUY'' ''2'' ''120000.00'' ''gold'' ''NORMAL'' ''MCX''"]
    mcxMapOf_case_insensitive [of "[\<lparr>mcx_script = ''Gold'', lotQty = Fin 1, rate = Fin 30\<rparr>]" "mkTrade ''BUY'' ''2'' ''120000.00'' ''gOLD'' ''NORMAL'' ''MCX''"]
  by (simp add: calcBrokerage_def eval_defs)

section \<open>The grouping loop\<close>

lemma map_fst_objUpdate: "map fst (objUpdate k f ps) = map fst ps"
  by (induction ps) (simp_all add: objUpdate_def)

lemma set_objUpdate:
  "set (objUpdate k f ps) = (\<lambda>p. if fst p = k then (fst p, f (snd p)) else p) ` set ps"
  by (simp add: objUpdate_def)



lemma keys_groupStep:
  "map fst (groupStep gs t) =
     (if groupKey t \<in> set (map fst gs) then map fst gs else map fst gs @ [groupKey t])"
  by (simp add: groupStep_def Let_def map_fst_objUpdate map_of_eq_None_iff)

lemma keys_foldl_groupStep:
  "map fst (foldl groupStep gs ts) =
     map fst gs @ filter (\<lambda>k. k \<notin> set (map fst gs)) (firstSeen (map groupKey ts))"
proof (induction ts arbitrary: gs)
  case Nil
  show ?case by simp
next
  case (Cons t ts)
  show ?case
  proof (cases "groupKey t \<in> set (map fst gs)")
    case True
    then have "(\<lambda>k. k \<noteq> groupKey t \<and> k \<notin> set (map fst gs)) = (\<lambda>k. k \<notin> set (map fst gs))"
      by auto
    with True show ?thesis
      by (simp add: Cons.IH keys_groupStep conj_commute)
  next
    case False
    then have "(\<lambda>k. k \<noteq> groupKey t \<and> k \<notin> set (map fst gs))
        = (\<lambda>k. k \<notin> set (map fst gs) \<and> k \<noteq> groupKey t)"
      by auto
    with False show ?thesis
      by (simp add: Cons.IH keys_groupStep)
  qed
qed

lemma keys_groupTrades: "map fst (groupTrades ts) = firstSeen (map groupKey ts)"
  by (simp add: groupTrades_def keys_foldl_groupStep)

lemma keyed_groupStep: "keyed gs \<Longrightarrow> keyed (groupStep gs t)"
  by (auto simp add: keyed_def groupStep_def Let_def set_objUpdate)

lemma keyed_foldl: "keyed gs \<Longrightarrow> keyed (foldl groupStep gs ts)"
  by (induction ts arbitrary: gs) (simp_all add: keyed_groupStep)

lemma keyed_groupTrades: "keyed (groupTrades ts)"
  unfolding groupTrades_def by (rule keyed_foldl) (simp add: keyed_def)

lemma keyed_scripts: "keyed gs \<Longrightarrow> map (\<lambda>p. script (snd p)) gs = map fst gs"
  by (induction gs) (simp_all add: keyed_def)

lemma objectValues_no_index:
  "\<forall>k\<in>set (map fst ps). \<not> isArrayIndex k \<Longrightarrow> objectValues ps = map snd ps"
proof -
  assume a: "\<forall>k\<in>set (map fst ps). \<not> isArrayIndex k"
  then have "filter (\<lambda>p. isArrayIndex (fst p)) ps = []"
    by (auto simp add: filter_empty_conv)
  moreover from a have "filter (\<lambda>p. \<not> isArrayIndex (fst p)) ps = ps"
    by (auto simp add: filter_id_conv)
  ultimately show ?thesis by (simp add: objectValues_def)
qed


lemma firstSeen_set: "set (firstSeen xs) = set xs"
  by (induction xs) auto

lemma firstSeen_distinct: "distinct (firstSeen xs)"
  by (induction xs) (auto simp add: firstSeen_set)

lemma firstSeen_by_firstIndex:
  "sorted_wrt (\<lambda>a b. firstIndex a xs < firstIndex b xs) (firstSeen xs)"
proof (induction xs)
  case Nil
  show ?case by simp
next
  case (Cons x xs)
  have "sorted_wrt (\<lambda>a b. firstIndex a xs < firstIndex b xs) (filter (\<lambda>y. y \<noteq> x) (firstSeen xs))"
    using Cons.IH by (rule sorted_wrt_filter)
  then have "sorted_wrt (\<lambda>a b. firstIndex a (x # xs) < firstIndex b (x # xs))
      (filter (\<lambda>y. y \<noteq> x) (firstSeen xs))"
    by (rule sorted_wrt_mono_rel [rotated]) auto
  then show ?case by auto
qed

lemma script_summarise: "script (summarise r m g) = script g"
  by (simp add: summarise_def Let_def)

lemma script_summarise_v2: "script (summarise_v2 r m g) = script g"
  by (simp add: summarise_v2_def Let_def)












section \<open>Reports of the concrete inputs\<close>


lemma reportB_value:
  "buildReport tradesB DEFAULT_NSE_RATE (mcxMapOf DEFAULT_MCX_SCRIPTS) =
     [\<lparr>script = ''500325'', exchange = ''NSE'',
       buys = [mkTrade ''BUY'' ''100'' ''250000.00'' ''500325'' ''NORMAL'' ''NSE''],
       sells = [],
       buyVol = Fin 250000, sellVol = Fin 0, buyBrk = Fin 75, sellBrk = Fin 0,
       totalBrk = Fin 75, gross = Fin (- 250000), net = Fin (- 250075)\<rparr>,
      \<lparr>script = ''TCS'', exchange = ''NSE'',
       buys = [mkTrade ''BUY'' ''10'' ''35000.00'' ''TCS'' ''NORMAL'' ''NSE''],
       sells = [],
       buyVol = Fin 35000, sellVol = Fin 0, buyBrk = Fin (21 / 2), sellBrk = Fin 0,
       totalBrk = Fin (21 / 2), gross = Fin (- 35000), net = Fin (- (70021 / 2))\<rparr>]"
  by (simp add: report_defs eval_defs)


lemma keysB: "map groupKey tradesB = [''TCS'', ''500325'']"
  by (simp add: groupKey_def eval_defs)

section \<open>Properties of the report builder\<close>

text \<open>
  Claim C5, as amended. For every list of trades in which no group key (the upper-cased
  symbol, or \<open>UNKNOWN\<close>) is an array index, both listings of \<open>buildReport\<close>
  return the groups in the order in which their symbols are first seen in the input:
  every key occurs once, and a key whose first trade is earlier in the input stands
  earlier in the report. Nothing is sorted by the alphabet or by another key. (A key
  that is an array index, such as the symbol 500325, is enumerated by
  \<open>Object.values\<close> before the other keys; the amended claim leaves such inputs out.)
\<close>

theorem buildReport_first_seen_order:
  assumes "\<forall>t\<in>set trades. \<not> isArrayIndex (groupKey t)"
  shows "map script (buildReport trades r m) = firstSeen (map groupKey trades)
       \<and> map script (buildReport_v2 trades r m) = firstSeen (map groupKey trades)
       \<and> distinct (map script (buildReport trades r m))
       \<and> set (map script (buildReport trades r m)) = set (map groupKey trades)
       \<and> sorted_wrt (\<lambda>a b. firstIndex a (map groupKey trades) < firstIndex b (map groupKey trades))
            (map script (buildReport trades r m))"
proof -
  from assms have "\<forall>k\<in>set (map fst (groupTrades trades)). \<not> isArrayIndex k"
    by (auto simp add: keys_groupTrades firstSeen_set)
  then have ov: "objectValues (groupTrades trades) = map snd (groupTrades trades)"
    by (rule objectValues_no_index)
  have "map (\<lambda>p. script (snd p)) (groupTrades trades) = firstSeen (map groupKey trades)"
    by (simp only: keyed_scripts [OF keyed_groupTrades] keys_groupTrades)
  with ov have eq: "map script (buildReport trades r m) = firstSeen (map groupKey trades)"
    and eq2: "map script (buildReport_v2 trades r m) = firstSeen (map groupKey trades)"
    by (simp_all add: buildReport_def buildReport_v2_def script_summarise script_summarise_v2
        comp_def)
  show ?thesis
    unfolding eq eq2
    by (simp only: firstSeen_distinct firstSeen_set firstSeen_by_firstIndex simp_thms)
qed

theorem buildReport_first_seen_order_witness:
  "list_all (\<lambda>t. \<not> isArrayIndex (groupKey t)) tradesA
   \<and> map groupKey tradesA = [''GOLD'', ''RELIANCE'', ''GOLD'', ''RELIANCE'']
   \<and> map script (buildReport tradesA DEFAULT_NSE_RATE (mcxMapOf DEFAULT_MCX_SCRIPTS))
      = [''GOLD'', ''RELIANCE'']
   \<and> map script (buildReport_v2 tradesA DEFAULT_NSE_RATE (mcxMapOf DEFAULT_MCX_SCRIPTS))
      = [''GOLD'', ''RELIANCE'']"
proof -
  have ks: "map groupKey tradesA = [''GOLD'', ''RELIANCE'', ''GOLD'', ''RELIANCE'']"
    by (simp add: tradesA_def groupKey_def eval_defs)
  have h: "\<forall>t\<in>set tradesA. \<not> isArrayIndex (groupKey t)"
    by (simp add: tradesA_def groupKey_def isArrayIndex_def eval_defs)
  then have la: "list_all (\<lambda>t. \<not> isArrayIndex (groupKey t)) tradesA"
    by (simp add: list_all_iff)
  from buildReport_first_seen_order [OF h, of DEFAULT_NSE_RATE "mcxMapOf DEFAULT_MCX_SCRIPTS"] ks la
  show ?thesis by simp
qed

theorem buildReport_order_counterexample:
  "map groupKey tradesB = [''TCS'', ''500325'']
   \<and> firstSeen (map groupKey tradesB) = [''TCS'', ''500325'']
   \<and> map script (buildReport tradesB DEFAULT_NSE_RATE (mcxMapOf DEFAULT_MCX_SCRIPTS))
      = [''500325'', ''TCS'']
   \<and> map script (buildReport tradesB DEFAULT_NSE_RATE (mcxMapOf DEFAULT_MCX_SCRIPTS))
      \<noteq> firstSeen (map groupKey tradesB)"
  by (simp add: reportB_value keysB)





end
